theory Spec2Isabelle
  imports Complex_Main "HOL-Library.Word"
begin

section \<open>JavaScript numbers\<close>

text \<open>
  The program computes with JavaScript numbers. They are modelled as exact reals
  extended by the three special values the code can produce: \<open>Infinity\<close> (the
  initial value of the minimum scan), \<open>-Infinity\<close> (the initial value of the maximum
  scan) and \<open>NaN\<close> (the value of \<open>0 / 0\<close>, and of \<open>undefined\<close> in arithmetic, which
  is what a typed array returns for an index out of range). Rounding is not modelled:
  finite arithmetic is exact. A zero divisor is the positive zero (every zero divisor
  of the program is a difference \<open>a - a\<close>, which is \<open>+0\<close>).
\<close>

datatype jsnum = Num real | PInf | NInf | NaN

fun jneg :: "jsnum \<Rightarrow> jsnum" where
  "jneg (Num x) = Num (- x)"
| "jneg PInf = NInf"
| "jneg NInf = PInf"
| "jneg NaN = NaN"

fun jadd :: "jsnum \<Rightarrow> jsnum \<Rightarrow> jsnum" where
  "jadd (Num x) (Num y) = Num (x + y)"
| "jadd NaN b = NaN"
| "jadd a NaN = NaN"
| "jadd PInf NInf = NaN"
| "jadd NInf PInf = NaN"
| "jadd PInf b = PInf"
| "jadd NInf b = NInf"
| "jadd a PInf = PInf"
| "jadd a NInf = NInf"

definition jsub :: "jsnum \<Rightarrow> jsnum \<Rightarrow> jsnum" where
  "jsub a b = jadd a (jneg b)"

text \<open>The sign of a product with an infinite factor; \<open>Infinity * 0\<close> is \<open>NaN\<close>.\<close>

definition signed_inf :: "real \<Rightarrow> jsnum" where
  "signed_inf s = (if s = 0 then NaN else if 0 < s then PInf else NInf)"

fun jmul :: "jsnum \<Rightarrow> jsnum \<Rightarrow> jsnum" where
  "jmul (Num x) (Num y) = Num (x * y)"
| "jmul NaN b = NaN"
| "jmul a NaN = NaN"
| "jmul PInf (Num y) = signed_inf y"
| "jmul NInf (Num y) = signed_inf (- y)"
| "jmul (Num x) PInf = signed_inf x"
| "jmul (Num x) NInf = signed_inf (- x)"
| "jmul PInf PInf = PInf"
| "jmul NInf NInf = PInf"
| "jmul PInf NInf = NInf"
| "jmul NInf PInf = NInf"

fun jdiv :: "jsnum \<Rightarrow> jsnum \<Rightarrow> jsnum" where
  "jdiv (Num x) (Num y) = (if y = 0 then signed_inf x else Num (x / y))"
| "jdiv NaN b = NaN"
| "jdiv a NaN = NaN"
| "jdiv (Num x) PInf = Num 0"
| "jdiv (Num x) NInf = Num 0"
| "jdiv PInf (Num y) = (if 0 \<le> y then PInf else NInf)"
| "jdiv NInf (Num y) = (if 0 \<le> y then NInf else PInf)"
| "jdiv a b = NaN"

text \<open>\<open>a <= b\<close> and \<open>a > b\<close>: every comparison with \<open>NaN\<close> is false.\<close>

fun jle :: "jsnum \<Rightarrow> jsnum \<Rightarrow> bool" where
  "jle (Num x) (Num y) = (x \<le> y)"
| "jle NaN b = False"
| "jle a NaN = False"
| "jle NInf b = True"
| "jle a PInf = True"
| "jle a b = False"

fun jgt :: "jsnum \<Rightarrow> jsnum \<Rightarrow> bool" where
  "jgt (Num x) (Num y) = (y < x)"
| "jgt NaN b = False"
| "jgt a NaN = False"
| "jgt a PInf = False"
| "jgt NInf b = False"
| "jgt a b = True"

text \<open>\<open>Math.min\<close> and \<open>Math.max\<close>: \<open>NaN\<close> when an argument is \<open>NaN\<close>.\<close>

definition jmin :: "jsnum \<Rightarrow> jsnum \<Rightarrow> jsnum" where
  "jmin a b = (if a = NaN \<or> b = NaN then NaN else if jle a b then a else b)"

definition jmax :: "jsnum \<Rightarrow> jsnum \<Rightarrow> jsnum" where
  "jmax a b = (if a = NaN \<or> b = NaN then NaN else if jle a b then b else a)"

section \<open>The data model\<close>

text \<open>
  A heightmap is the object \<^verbatim>\<open>{data, width, height}\<close> the readers and the generator
  return: \<open>data\<close> is a \<^verbatim>\<open>Float32Array\<close> of finite samples in row-major order. The
  map scale is \<^verbatim>\<open>{width_km, height_km, max_elevation_km}\<close>.
\<close>

record heightmap =
  data :: "real list"
  width :: nat
  height :: nat

record mapScale =
  width_km :: real
  height_km :: real
  max_elevation_km :: real

datatype vector3 = Vector3 jsnum jsnum jsnum

text \<open>
  The fields of \<^verbatim>\<open>TerrainRenderer\<close> that \<^verbatim>\<open>addContours\<close> and \<^verbatim>\<open>getTerrainInfo\<close>
  read and write. \<open>hmap = None\<close> is \<^verbatim>\<open>this.heightmap = null\<close>; \<open>contours\<close> is the
  contour group, the list of the lines added to it (each line the list of its points),
  \<open>None\<close> before any group is stored.
\<close>

record renderer =
  hmap :: "heightmap option"
  scale :: mapScale
  contourLevels :: int
  resolution :: int
  contours :: "vector3 list list option"

text \<open>
  What a call completes with: \<open>Inr\<close> a value when it returns (or its promise is
  resolved), \<open>Inl\<close> the error when it throws (or its promise is rejected).
\<close>

datatype js_error = Error string

text \<open>\<^verbatim>\<open>data[i]\<close> used as a number: \<open>undefined\<close>, hence \<open>NaN\<close>, out of range.\<close>

definition sample :: "real list \<Rightarrow> nat \<Rightarrow> jsnum" where
  "sample ds i = (if i < length ds then Num (ds ! i) else NaN)"

section \<open>The height range scan\<close>

text \<open>
  \<^verbatim>\<open>
  let minHeight = Infinity;
  let maxHeight = -Infinity;
  for (let i = 0; i < this.heightmap.data.length; i++) {
    minHeight = Math.min(minHeight, this.heightmap.data[i]);
    maxHeight = Math.max(maxHeight, this.heightmap.data[i]);
  }
  \<close>
\<close>

fun scanRange :: "jsnum \<times> jsnum \<Rightarrow> real list \<Rightarrow> jsnum \<times> jsnum" where
  "scanRange (minHeight, maxHeight) [] = (minHeight, maxHeight)"
| "scanRange (minHeight, maxHeight) (v # vs) =
     scanRange (jmin minHeight (Num v), jmax maxHeight (Num v)) vs"

definition heightBounds :: "real list \<Rightarrow> jsnum \<times> jsnum" where
  "heightBounds ds = scanRange (PInf, NInf) ds"

section \<open>The crossing test of addContours\<close>

text \<open>
  \<^verbatim>\<open>(h00 <= scaledLevel && h10 > scaledLevel) || (h00 > scaledLevel && h10 <= scaledLevel)\<close>
\<close>

definition crossing :: "jsnum \<Rightarrow> jsnum \<Rightarrow> jsnum \<Rightarrow> bool" where
  "crossing h0 h1 scaledLevel =
     ((jle h0 scaledLevel \<and> jgt h1 scaledLevel) \<or> (jgt h0 scaledLevel \<and> jle h1 scaledLevel))"

section \<open>addContours\<close>

text \<open>
  The levels: \<^verbatim>\<open>
  if (!this.heightmap || this.contourLevels <= 0) return;
  ...
  const heightRange = maxHeight - minHeight;
  if (heightRange > 0) {
    const levels = [];
    for (let i = 0; i < this.contourLevels; i++) {
      levels.push(minHeight + (i / (this.contourLevels - 1)) * heightRange);
    }\<close>
  \<open>planLevels\<close> is the array \<open>levels\<close>, and \<open>None\<close> on the paths that never
  build it (the early return and a height range that is not positive).
\<close>

definition levelAt :: "int \<Rightarrow> jsnum \<Rightarrow> jsnum \<Rightarrow> nat \<Rightarrow> jsnum" where
  "levelAt n minHeight heightRange i =
     jadd minHeight (jmul (jdiv (Num (real i)) (Num (real_of_int (n - 1)))) heightRange)"

definition planLevels :: "renderer \<Rightarrow> jsnum list option" where
  "planLevels r =
     (case hmap r of
        None \<Rightarrow> None
      | Some hm \<Rightarrow>
          if contourLevels r \<le> 0 then None
          else
            let (minHeight, maxHeight) = heightBounds (data hm);
                heightRange = jsub maxHeight minHeight
            in if jgt heightRange (Num 0)
               then Some (map (levelAt (contourLevels r) minHeight heightRange)
                              [0..<nat (contourLevels r)])
               else None)"

text \<open>
  The body of the two inner loops, for the sample \<open>(x, y)\<close>: the four corner heights
  scaled by the maximum elevation, the test of the horizontal edge to \<open>(x+1, y)\<close> and
  of the vertical edge to \<open>(x, y+1)\<close>, and the point pushed for each crossing (the
  source also reads the fourth corner \<open>h11\<close>, and never uses it). The
  grid position \<open>(px, py)\<close> of a crossing is \<open>(x + t, y)\<close> on the horizontal edge and
  \<open>(x, y + t)\<close> on the vertical one; the point pushed is its image in scene
  coordinates.
\<close>

definition scenePoint :: "heightmap \<Rightarrow> mapScale \<Rightarrow> jsnum \<Rightarrow> jsnum \<times> jsnum \<Rightarrow> vector3" where
  "scenePoint hm sc scaledLevel p =
     Vector3
       (jmul (jsub (jdiv (fst p) (Num (real (width hm)))) (Num 0.5)) (Num (width_km sc)))
       scaledLevel
       (jmul (jsub (jdiv (snd p) (Num (real (height hm)))) (Num 0.5)) (Num (height_km sc)))"

definition cellCrossings :: "heightmap \<Rightarrow> mapScale \<Rightarrow> jsnum \<Rightarrow> nat \<Rightarrow> nat \<Rightarrow> (jsnum \<times> jsnum) list" where
  "cellCrossings hm sc level x y =
     (let maxElevation = Num (max_elevation_km sc);
          scaledLevel = jmul level maxElevation;
          idx = y * width hm + x;
          h00 = jmul (sample (data hm) idx) maxElevation;
          h10 = jmul (sample (data hm) (idx + 1)) maxElevation;
          h01 = jmul (sample (data hm) (idx + width hm)) maxElevation
      in (if crossing h00 h10 scaledLevel
          then [(jadd (Num (real x)) (jdiv (jsub scaledLevel h00) (jsub h10 h00)), Num (real y))]
          else []) @
         (if crossing h00 h01 scaledLevel
          then [(Num (real x), jadd (Num (real y)) (jdiv (jsub scaledLevel h00) (jsub h01 h00)))]
          else []))"

definition cellPoints :: "heightmap \<Rightarrow> mapScale \<Rightarrow> jsnum \<Rightarrow> nat \<Rightarrow> nat \<Rightarrow> vector3 list" where
  "cellPoints hm sc level x y =
     map (scenePoint hm sc (jmul level (Num (max_elevation_km sc)))) (cellCrossings hm sc level x y)"

text \<open>
  The scan for one level: \<^verbatim>\<open>
  for (let y = 0; y < this.heightmap.height - 1; y++)
    for (let x = 0; x < this.heightmap.width - 1; x++) ...\<close>
  \<open>levelCrossings\<close> lists the grid positions in the order the scan finds them,
  \<open>levelPoints\<close> is the array \<open>points\<close> at the end of the scan.
\<close>

definition levelCrossings :: "heightmap \<Rightarrow> mapScale \<Rightarrow> jsnum \<Rightarrow> (jsnum \<times> jsnum) list" where
  "levelCrossings hm sc level =
     concat (map (\<lambda>y. concat (map (\<lambda>x. cellCrossings hm sc level x y) [0..<width hm - 1]))
                 [0..<height hm - 1])"

definition levelPoints :: "heightmap \<Rightarrow> mapScale \<Rightarrow> jsnum \<Rightarrow> vector3 list" where
  "levelPoints hm sc level =
     concat (map (\<lambda>y. concat (map (\<lambda>x. cellPoints hm sc level x y) [0..<width hm - 1]))
                 [0..<height hm - 1])"

text \<open>
  The whole method. A level whose scan found more than one point adds a line to the
  group (\<^verbatim>\<open>if (points.length > 1)\<close>); the group is stored in \<^verbatim>\<open>this.contours\<close>. The
  method has no \<^verbatim>\<open>throw\<close>: it always returns.
\<close>

definition addContours :: "renderer \<Rightarrow> js_error + renderer" where
  "addContours r =
     (case hmap r of
        None \<Rightarrow> Inr r
      | Some hm \<Rightarrow>
          (case planLevels r of
             None \<Rightarrow> Inr r
           | Some levels \<Rightarrow>
               Inr (r\<lparr>contours :=
                      Some (filter (\<lambda>points. 1 < length points)
                              (map (levelPoints hm (scale r)) levels))\<rparr>)))"

section \<open>getTerrainInfo\<close>

text \<open>
  \<^verbatim>\<open>
  if (!this.heightmap) return null;
  ... the height range scan ...
  const heightRange = maxHeight - minHeight;
  const maxElevation = this.mapScale.max_elevation_km;
  return {
    minElevation: minHeight * maxElevation * 1000,
    maxElevation: maxHeight * maxElevation * 1000,
    elevationRange: heightRange * maxElevation * 1000,
    mapWidth: this.mapScale.width_km,
    mapHeight: this.mapScale.height_km,
    resolution: this.resolution
  };\<close>
\<close>

record terrainInfo =
  minElevation :: jsnum
  maxElevation :: jsnum
  elevationRange :: jsnum
  mapWidth :: real
  mapHeight :: real
  infoResolution :: int

definition getTerrainInfo :: "renderer \<Rightarrow> terrainInfo option" where
  "getTerrainInfo r =
     (case hmap r of
        None \<Rightarrow> None
      | Some hm \<Rightarrow>
          let (minHeight, maxHeight) = heightBounds (data hm);
              heightRange = jsub maxHeight minHeight;
              elevation = Num (max_elevation_km (scale r))
          in Some \<lparr>minElevation = jmul (jmul minHeight elevation) (Num 1000),
                   maxElevation = jmul (jmul maxHeight elevation) (Num 1000),
                   elevationRange = jmul (jmul heightRange elevation) (Num 1000),
                   mapWidth = width_km (scale r),
                   mapHeight = height_km (scale r),
                   infoResolution = resolution r\<rparr>)"

section \<open>readR16Heightmap\<close>

text \<open>
  The file is the byte buffer the \<^verbatim>\<open>FileReader\<close> delivers. \<^verbatim>\<open>getUint32(off, true)\<close> and
  \<^verbatim>\<open>getUint16(off, true)\<close> read little-endian and throw a \<^verbatim>\<open>RangeError\<close> when the read
  leaves the buffer; the \<^verbatim>\<open>catch\<close> turns it into the rejection
  \<^verbatim>\<open>'Failed to parse R16 file: ' + e.message\<close>. The numbers of this function are
  non-negative integers; the model computes \<open>8 + width * height * 2\<close> exactly, which
  decides the comparison with \<^verbatim>\<open>byteLength\<close> as the floating-point product does for
  every buffer length below \<open>2^53\<close>.
\<close>

type_synonym byte = "8 word"

definition leValue :: "byte list \<Rightarrow> nat" where
  "leValue bs = foldr (\<lambda>b v. unat b + 256 * v) bs 0"

definition rangeError :: js_error where
  "rangeError = Error ''Offset is outside the bounds of the DataView''"

definition getUint32 :: "byte list \<Rightarrow> nat \<Rightarrow> js_error + nat" where
  "getUint32 buffer off =
     (if off + 4 \<le> length buffer then Inr (leValue (take 4 (drop off buffer))) else Inl rangeError)"

definition getUint16 :: "byte list \<Rightarrow> nat \<Rightarrow> js_error + nat" where
  "getUint16 buffer off =
     (if off + 2 \<le> length buffer then Inr (leValue (take 2 (drop off buffer))) else Inl rangeError)"

fun parseFailure :: "js_error \<Rightarrow> js_error" where
  "parseFailure (Error message) = Error (''Failed to parse R16 file: '' @ message)"

text \<open>
  \<^verbatim>\<open>for (let i = 0; i < width * height; i++)
    heightmap[i] = dataView.getUint16(8 + i * 2, true) / 65535;\<close>
  over the list of the indices still to read; the first failing read ends the loop.
\<close>

fun readSamples :: "byte list \<Rightarrow> nat list \<Rightarrow> js_error + real list" where
  "readSamples buffer [] = Inr []"
| "readSamples buffer (i # rest) =
     (case getUint16 buffer (8 + i * 2) of
        Inl e \<Rightarrow> Inl e
      | Inr v \<Rightarrow>
          (case readSamples buffer rest of
             Inl e \<Rightarrow> Inl e
           | Inr vs \<Rightarrow> Inr (real v / 65535 # vs)))"

definition readR16Heightmap :: "byte list \<Rightarrow> js_error + heightmap" where
  "readR16Heightmap buffer =
     (case getUint32 buffer 0 of
        Inl e \<Rightarrow> Inl (parseFailure e)
      | Inr w \<Rightarrow>
          (case getUint32 buffer 4 of
             Inl e \<Rightarrow> Inl (parseFailure e)
           | Inr h \<Rightarrow>
               if length buffer \<noteq> 8 + w * h * 2 then Inl (Error ''Invalid R16 file size'')
               else
                 (case readSamples buffer [0..<w * h] of
                    Inl e \<Rightarrow> Inl (parseFailure e)
                  | Inr heights \<Rightarrow> Inr \<lparr>data = heights, width = w, height = h\<rparr>)))"

text \<open>
  The unsigned little-endian integers of the file layout, byte by byte: the 32-bit
  one at the offsets \<open>off .. off + 3\<close> and the 16-bit one at \<open>off, off + 1\<close>.
\<close>

definition u32le :: "byte list \<Rightarrow> nat \<Rightarrow> nat" where
  "u32le bs off =
     unat (bs ! off) + 256 * unat (bs ! (off + 1)) + 65536 * unat (bs ! (off + 2))
       + 16777216 * unat (bs ! (off + 3))"

definition u16le :: "byte list \<Rightarrow> nat \<Rightarrow> nat" where
  "u16le bs off = unat (bs ! off) + 256 * unat (bs ! (off + 1))"

section \<open>generateRandomHeightmap\<close>

text \<open>
  \<^verbatim>\<open>simplex2D\<close> with its three local functions. The gradient of a lattice point is
  chosen by \<^verbatim>\<open>Math.abs(Math.floor(Math.sin(ix * 12.9898 + iy * 78.233) * 43758.5453 * 8)) % 8\<close>.
\<close>

definition dot :: "real \<times> real \<Rightarrow> real \<Rightarrow> real \<Rightarrow> real" where
  "dot g x y = fst g * x + snd g * y"

definition grad3 :: "(real \<times> real) list" where
  "grad3 = [(1, 1), (- 1, 1), (1, - 1), (- 1, - 1), (1, 0), (- 1, 0), (0, 1), (0, - 1)]"

definition getGradient :: "int \<Rightarrow> int \<Rightarrow> real \<times> real" where
  "getGradient ix iy =
     (let random = sin (real_of_int ix * 12.9898 + real_of_int iy * 78.233) * 43758.5453;
          index = nat \<bar>\<lfloor>random * 8\<rfloor>\<bar> mod 8
      in grad3 ! index)"

definition contribution :: "int \<Rightarrow> int \<Rightarrow> real \<Rightarrow> real \<Rightarrow> real" where
  "contribution ix iy x y =
     (let g = getGradient ix iy;
          dx = x - real_of_int ix;
          dy = y - real_of_int iy;
          t = 0.5 - dx * dx - dy * dy
      in if t < 0 then 0
         else let t2 = t * t; t4 = t2 * t2 in t4 * dot g dx dy)"

definition simplex2D :: "real \<Rightarrow> real \<Rightarrow> real" where
  "simplex2D x y =
     (let ix0 = \<lfloor>x\<rfloor>;
          iy0 = \<lfloor>y\<rfloor>;
          ix1 = ix0 + 1;
          iy1 = iy0 + 1;
          n00 = contribution ix0 iy0 x y;
          n10 = contribution ix1 iy0 x y;
          n01 = contribution ix0 iy1 x y;
          n11 = contribution ix1 iy1 x y
      in (n00 + n10 + n01 + n11) * 70.0)"

text \<open>
  The octave loop, \<open>k\<close> iterations from the state \<open>(value, amplitude, frequency)\<close>:
  \<^verbatim>\<open>
  for (let i = 0; i < 6; i++) {
    value += amplitude * simplex2D(nx * frequency, ny * frequency);
    amplitude *= 0.5;
    frequency *= 2.0;
  }\<close>
\<close>

fun octaves :: "nat \<Rightarrow> real \<Rightarrow> real \<Rightarrow> real \<Rightarrow> real \<Rightarrow> real \<Rightarrow> real" where
  "octaves 0 nx ny val amplitude frequency = val"
| "octaves (Suc k) nx ny val amplitude frequency =
     octaves k nx ny (val + amplitude * simplex2D (nx * frequency) (ny * frequency))
       (amplitude * 0.5) (frequency * 2.0)"

definition heightAt :: "nat \<Rightarrow> nat \<Rightarrow> nat \<Rightarrow> nat \<Rightarrow> real" where
  "heightAt w h x y =
     (let nx = real x / real w - 0.5;
          ny = real y / real h - 0.5;
          val = octaves 6 nx ny 0 1.0 1.0
      in (val + 1) * 0.5)"

text \<open>
  The two loops fill \<^verbatim>\<open>heightmap[y * width + x]\<close> for \<open>y < height\<close>, \<open>x < width\<close>:
  every index once, in increasing order.
\<close>

definition generateRandomHeightmap :: "nat \<Rightarrow> nat \<Rightarrow> heightmap" where
  "generateRandomHeightmap w h =
     \<lparr>data = concat (map (\<lambda>y. map (\<lambda>x. heightAt w h x y) [0..<w]) [0..<h]),
      width = w, height = h\<rparr>"

section \<open>The contour extractor as the specification words it\<close>

text \<open>
  Per level: for every sample \<open>(x, y)\<close> with \<open>x < width - 1\<close> and \<open>y < height - 1\<close>,
  in row-major order, the horizontal edge to \<open>(x+1, y)\<close> and then the vertical edge
  to \<open>(x, y+1)\<close> are tested. An edge from value \<open>v0\<close> to value \<open>v1\<close> has a crossing
  when one endpoint is \<open><= level\<close> and the other \<open>> level\<close>; it then emits one point
  at the fraction \<open>t = (level - v0) / (v1 - v0)\<close> of the edge.
\<close>

definition specStraddles :: "real \<Rightarrow> real \<Rightarrow> real \<Rightarrow> bool" where
  "specStraddles v0 v1 level = ((v0 \<le> level \<and> level < v1) \<or> (level < v0 \<and> v1 \<le> level))"

definition specT :: "real \<Rightarrow> real \<Rightarrow> real \<Rightarrow> real" where
  "specT v0 v1 level = (level - v0) / (v1 - v0)"

definition specCell :: "nat \<Rightarrow> real list \<Rightarrow> real \<Rightarrow> nat \<Rightarrow> nat \<Rightarrow> (real \<times> real) list" where
  "specCell w vs level x y =
     (let v0 = vs ! (y * w + x);
          vRight = vs ! (y * w + (x + 1));
          vBelow = vs ! ((y + 1) * w + x)
      in (if specStraddles v0 vRight level then [(real x + specT v0 vRight level, real y)] else []) @
         (if specStraddles v0 vBelow level then [(real x, real y + specT v0 vBelow level)] else []))"

definition specContour :: "nat \<Rightarrow> nat \<Rightarrow> real list \<Rightarrow> real \<Rightarrow> (real \<times> real) list" where
  "specContour w h vs level =
     concat (map (\<lambda>y. concat (map (\<lambda>x. specCell w vs level x y) [0..<w - 1])) [0..<h - 1])"

definition gridPoint :: "real \<times> real \<Rightarrow> jsnum \<times> jsnum" where
  "gridPoint p = (Num (fst p), Num (snd p))"

section \<open>Example inputs\<close>

text \<open>
  Renderers at which the methods are evaluated below: a grid one sample wide, a
  2 by 2 grid with a single contour level requested, a flat 3 by 3 grid with
  five levels requested, and a 2 by 2 grid whose values span \<open>[0.1, 0.9]\<close>.
\<close>

definition thinRenderer :: renderer where
  "thinRenderer = \<lparr>hmap = Some \<lparr>data = [0, 1], width = 1, height = 2\<rparr>,
     scale = \<lparr>width_km = 10, height_km = 10, max_elevation_km = 5\<rparr>,
     contourLevels = 3, resolution = 500, contours = None\<rparr>"

definition singleLevelRenderer :: renderer where
  "singleLevelRenderer = \<lparr>hmap = Some \<lparr>data = [0, 1, 0, 1], width = 2, height = 2\<rparr>,
     scale = \<lparr>width_km = 10, height_km = 10, max_elevation_km = 5\<rparr>,
     contourLevels = 1, resolution = 500, contours = None\<rparr>"

definition flatRenderer :: renderer where
  "flatRenderer = \<lparr>hmap = Some \<lparr>data = [0.2, 0.2, 0.2, 0.2, 0.2, 0.2, 0.2, 0.2, 0.2],
       width = 3, height = 3\<rparr>,
     scale = \<lparr>width_km = 10, height_km = 10, max_elevation_km = 5\<rparr>,
     contourLevels = 5, resolution = 500, contours = None\<rparr>"

definition surveyRenderer :: renderer where
  "surveyRenderer = \<lparr>hmap = Some \<lparr>data = [0.5, 0.1, 0.9, 0.3], width = 2, height = 2\<rparr>,
     scale = \<lparr>width_km = 10, height_km = 8, max_elevation_km = 5\<rparr>,
     contourLevels = 20, resolution = 500, contours = None\<rparr>"

section \<open>Properties of the contour scan\<close>

subsection \<open>The scan against the specification's extractor\<close>

lemma crossing_Num:
  "0 < m \<Longrightarrow> crossing (Num (a * m)) (Num (b * m)) (Num (l * m)) = specStraddles a b l"
  by (auto simp: crossing_def specStraddles_def)

lemma t_Num:
  assumes "0 < m" "specStraddles a b l"
  shows "jdiv (jsub (Num (l * m)) (Num (a * m))) (jsub (Num (b * m)) (Num (a * m)))
         = Num (specT a b l)"
proof -
  have ne: "b - a \<noteq> 0" using assms(2) by (auto simp: specStraddles_def)
  have "(l * m - a * m) / (b * m - a * m) = ((l - a) * m) / ((b - a) * m)"
    by (simp add: algebra_simps)
  also have "\<dots> = (l - a) / (b - a)" using assms(1) by simp
  finally have eq: "(l * m - a * m) / (b * m - a * m) = specT a b l" by (simp add: specT_def)
  have "b * m - a * m = (b - a) * m" by (simp add: algebra_simps)
  then have "b * m - a * m \<noteq> 0" using ne assms(1) by simp
  then show ?thesis using eq by (simp add: jsub_def)
qed

lemma cell_index_bound:
  fixes x y w h :: nat
  assumes "x < w - 1" "y < h - 1"
  shows "y * w + x + w < w * h" "y * w + x + 1 < w * h" "y * w + x < w * h"
proof -
  have "Suc y \<le> h - 1" using assms by simp
  then have "Suc y * w \<le> (h - 1) * w" by (rule mult_le_mono1)
  moreover have "(h - 1) * w + w = w * h" using assms by (cases h) (simp_all add: algebra_simps)
  ultimately show "y * w + x + w < w * h" "y * w + x + 1 < w * h" "y * w + x < w * h"
    using assms by simp_all
qed

lemma cellCrossings_spec:
  assumes "x < width hm - 1" "y < height hm - 1"
    and "length (data hm) = width hm * height hm" and "0 < max_elevation_km sc"
  shows "cellCrossings hm sc (Num level) x y = map gridPoint (specCell (width hm) (data hm) level x y)"
proof -
  note b = cell_index_bound [OF assms(1,2)]
  have at00: "sample (data hm) (y * width hm + x) = Num (data hm ! (y * width hm + x))"
    and at10: "sample (data hm) (y * width hm + x + 1)
        = Num (data hm ! (y * width hm + (x + 1)))"
    and at01: "sample (data hm) (y * width hm + x + width hm)
        = Num (data hm ! ((y + 1) * width hm + x))"
  proof -
    have i1: "y * width hm + (x + 1) = y * width hm + x + 1" by simp
    have i2: "(y + 1) * width hm + x = y * width hm + x + width hm" by (simp add: algebra_simps)
    show "sample (data hm) (y * width hm + x) = Num (data hm ! (y * width hm + x))"
      using b(3) assms(3) by (simp add: sample_def)
    show "sample (data hm) (y * width hm + x + 1) = Num (data hm ! (y * width hm + (x + 1)))"
      unfolding i1 using b(2) assms(3) by (simp add: sample_def)
    show "sample (data hm) (y * width hm + x + width hm) = Num (data hm ! ((y + 1) * width hm + x))"
      unfolding i2 using b(1) assms(3) by (simp add: sample_def)
  qed
  show ?thesis
    unfolding cellCrossings_def specCell_def Let_def at00 at10 at01 jmul.simps
      crossing_Num [OF assms(4)]
    by (simp add: t_Num [OF assms(4)] gridPoint_def del: One_nat_def)
qed

lemma levelCrossings_spec:
  assumes "length (data hm) = width hm * height hm" and "0 < max_elevation_km sc"
  shows "levelCrossings hm sc (Num level) =
         map gridPoint (specContour (width hm) (height hm) (data hm) level)"
  unfolding levelCrossings_def specContour_def map_concat map_map comp_def
  by (intro arg_cong [where f = concat] map_cong refl)
     (simp_all add: cellCrossings_spec [OF _ _ assms])

lemma levelPoints_scene:
  "levelPoints hm sc level =
     map (scenePoint hm sc (jmul level (Num (max_elevation_km sc)))) (levelCrossings hm sc level)"
  by (simp add: levelPoints_def levelCrossings_def cellPoints_def map_concat comp_def)

text \<open>
  Claim C1. For a grid of at least 2 by 2 samples that holds \<open>width * height\<close>
  values, a positive maximum elevation and every level, the grid positions the scan
  of \<^verbatim>\<open>addContours\<close> finds are those of the specification's extractor, in the same
  order: row by row over the samples \<open>(x, y)\<close> with \<open>x < width - 1\<close> and
  \<open>y < height - 1\<close>, the horizontal edge to \<open>(x+1, y)\<close> before the vertical edge to
  \<open>(x, y+1)\<close>, one point per edge exactly when one endpoint is \<open><= level\<close> and the
  other \<open>> level\<close>, at \<open>t = (level - v0) / (v1 - v0)\<close> along the edge. The array
  \<open>points\<close> holds the images of these positions in scene coordinates. For the grid
  \<open>[0, 1, 0, 1]\<close> of 2 by 2 samples and the level \<open>0.5\<close> the scan finds the single
  position \<open>(0.5, 0)\<close>.
\<close>

theorem contour_scan_refines_spec:
  assumes "2 \<le> width hm" and "2 \<le> height hm"
    and "length (data hm) = width hm * height hm"
    and "0 < max_elevation_km sc"
  shows "levelCrossings hm sc (Num level) =
           map gridPoint (specContour (width hm) (height hm) (data hm) level)
         \<and> levelPoints hm sc (Num level) =
           map (scenePoint hm sc (Num (level * max_elevation_km sc)))
             (map gridPoint (specContour (width hm) (height hm) (data hm) level))"
  using levelCrossings_spec [OF assms(3,4)] by (simp add: levelPoints_scene)

theorem contour_scan_refines_spec_witness:
  "levelCrossings \<lparr>data = [0, 1, 0, 1], width = 2, height = 2\<rparr>
      \<lparr>width_km = 10, height_km = 10, max_elevation_km = 5\<rparr> (Num 0.5)
     = [(Num 0.5, Num 0)]
   \<and> levelPoints \<lparr>data = [0, 1, 0, 1], width = 2, height = 2\<rparr>
      \<lparr>width_km = 10, height_km = 10, max_elevation_km = 5\<rparr> (Num 0.5)
     = [Vector3 (Num (- 2.5)) (Num 2.5) (Num (- 5))]"
  using contour_scan_refines_spec
    [of "\<lparr>data = [0, 1, 0, 1], width = 2, height = 2\<rparr>"
        "\<lparr>width_km = 10, height_km = 10, max_elevation_km = 5\<rparr>" "0.5"]
  by (simp add: specContour_def specCell_def specStraddles_def specT_def gridPoint_def
      scenePoint_def jsub_def)

subsection \<open>No division by zero\<close>

text \<open>
  Claim C7. Whenever the crossing test of an edge succeeds, the two endpoint heights
  differ and their difference, the divisor of the interpolation
  \<open>t = (scaledLevel - h0) / (h1 - h0)\<close>, is not zero. This holds for all values the
  three numbers can take, the infinite ones and \<open>NaN\<close> included, so for every grid,
  level and tested edge.
\<close>

theorem crossing_never_divides_by_zero:
  "crossing h0 h1 scaledLevel \<Longrightarrow> h1 \<noteq> h0 \<and> jsub h1 h0 \<noteq> Num 0"
  unfolding crossing_def jsub_def
  by (cases h0; cases h1; cases scaledLevel) auto

theorem crossing_never_divides_by_zero_witness:
  "crossing (Num 0) (Num 5) (Num 2.5) \<and> Num 5 \<noteq> Num 0 \<and> jsub (Num 5) (Num 0) \<noteq> Num 0"
proof -
  have c: "crossing (Num 0) (Num 5) (Num 2.5)" by (simp add: crossing_def)
  show ?thesis using c crossing_never_divides_by_zero [OF c] by simp
qed

section \<open>Properties of the height range scan\<close>

lemma jmin_Num: "jmin (Num a) (Num b) = Num (min a b)"
  by (simp add: jmin_def min_def)

lemma jmax_Num: "jmax (Num a) (Num b) = Num (max a b)"
  by (simp add: jmax_def max_def)

lemma scanRange_Num:
  "scanRange (Num a, Num b) vs = (Num (Min (insert a (set vs))), Num (Max (insert b (set vs))))"
proof (induction vs arbitrary: a b)
  case Nil
  show ?case by simp
next
  case (Cons v vs)
  have mn: "Min (insert (min a v) (set vs)) = Min (insert a (insert v (set vs)))"
    by (cases "set vs = {}") (simp_all add: min.assoc)
  have mx: "Max (insert (max b v) (set vs)) = Max (insert b (insert v (set vs)))"
    by (cases "set vs = {}") (simp_all add: max.assoc)
  show ?case by (simp add: jmin_Num jmax_Num Cons.IH mn mx)
qed

lemma heightBounds_Nil: "heightBounds [] = (PInf, NInf)"
  by (simp add: heightBounds_def)

lemma heightBounds_nonempty:
  "ds \<noteq> [] \<Longrightarrow> heightBounds ds = (Num (Min (set ds)), Num (Max (set ds)))"
  by (cases ds) (simp_all add: heightBounds_def jmin_def jmax_def scanRange_Num)

lemma heightBounds_flat:
  assumes "\<forall>v\<in>set ds. v = c"
  shows "heightBounds ds = (PInf, NInf) \<or> heightBounds ds = (Num c, Num c)"
proof (cases ds)
  case Nil
  then show ?thesis by (simp add: heightBounds_Nil)
next
  case (Cons v vs)
  with assms have "set ds = {c}" by auto
  moreover have "ds \<noteq> []" using Cons by simp
  ultimately show ?thesis by (simp add: heightBounds_nonempty)
qed

section \<open>Levels outside the range, flat grids, small grids\<close>

lemma no_crossing_NaN [simp]: "\<not> crossing NaN h sl" "\<not> crossing h NaN sl"
  by (cases h; cases sl; simp add: crossing_def)+

lemma no_crossing_side:
  fixes m :: real
  assumes "(a < l \<and> b < l) \<or> (l < a \<and> l < b) \<or> a = b"
  shows "\<not> crossing (Num (a * m)) (Num (b * m)) (Num (l * m))"
  using assms
  by (cases "0 < m"; cases "m = 0")
     (auto simp: crossing_def mult_le_cancel_right mult_less_cancel_right not_less)

lemma no_crossing_samples:
  assumes "(\<forall>v\<in>set ds. v < l) \<or> (\<forall>v\<in>set ds. l < v) \<or> (\<forall>v\<in>set ds. v = c)"
  shows "\<not> crossing (jmul (sample ds i) (Num m)) (jmul (sample ds j) (Num m)) (jmul (Num l) (Num m))"
proof (cases "i < length ds \<and> j < length ds")
  case True
  then have "ds ! i \<in> set ds" "ds ! j \<in> set ds" by simp_all
  with assms have "(ds ! i < l \<and> ds ! j < l) \<or> (l < ds ! i \<and> l < ds ! j) \<or> ds ! i = ds ! j"
    by metis
  from no_crossing_side [OF this] True show ?thesis by (simp add: sample_def)
next
  case False
  then show ?thesis by (auto simp: sample_def)
qed

lemma cellCrossings_empty:
  assumes "(\<forall>v\<in>set (data hm). v < l) \<or> (\<forall>v\<in>set (data hm). l < v) \<or> (\<forall>v\<in>set (data hm). v = c)"
  shows "cellCrossings hm sc (Num l) x y = []"
  unfolding cellCrossings_def Let_def
  using no_crossing_samples [OF assms] by simp

lemma levelPoints_empty:
  assumes "(\<forall>v\<in>set (data hm). v < l) \<or> (\<forall>v\<in>set (data hm). l < v) \<or> (\<forall>v\<in>set (data hm). v = c)"
  shows "levelPoints hm sc (Num l) = []"
  by (simp add: levelPoints_def cellPoints_def cellCrossings_empty [OF assms])

text \<open>
  Claim C6. For every non-empty grid (whatever its dimensions and the map scale):
  (a) a level strictly above the maximum sample or strictly below the minimum sample
  leaves the array \<open>points\<close> of the scan empty; (b) when all samples are equal, the
  scan leaves it empty for every level, the level equal to the flat value included.
\<close>

theorem no_contour_outside_range_or_flat:
  assumes "data hm \<noteq> []"
  shows "(Max (set (data hm)) < level \<or> level < Min (set (data hm))
            \<longrightarrow> levelPoints hm sc (Num level) = [])
         \<and> ((\<forall>v\<in>set (data hm). v = c) \<longrightarrow> levelPoints hm sc (Num level) = [])"
proof -
  have ne: "set (data hm) \<noteq> {}" using assms by simp
  have "levelPoints hm sc (Num level) = []" if "Max (set (data hm)) < level"
  proof -
    from that ne have "\<forall>v\<in>set (data hm). v < level" by simp
    then show ?thesis by (simp add: levelPoints_empty)
  qed
  moreover have "levelPoints hm sc (Num level) = []" if "level < Min (set (data hm))"
  proof -
    from that ne have "\<forall>v\<in>set (data hm). level < v" by simp
    then show ?thesis by (simp add: levelPoints_empty)
  qed
  moreover have "levelPoints hm sc (Num level) = []" if "\<forall>v\<in>set (data hm). v = c"
    using that levelPoints_empty [of hm level c sc] by blast
  ultimately show ?thesis by blast
qed

theorem no_contour_outside_range_or_flat_witness:
  "levelPoints \<lparr>data = [0, 1, 0, 1], width = 2, height = 2\<rparr>
      \<lparr>width_km = 10, height_km = 10, max_elevation_km = 5\<rparr> (Num 2) = []
   \<and> levelPoints \<lparr>data = [0.2, 0.2, 0.2, 0.2], width = 2, height = 2\<rparr>
      \<lparr>width_km = 10, height_km = 10, max_elevation_km = 5\<rparr> (Num 0.2) = []"
  using no_contour_outside_range_or_flat
    [of "\<lparr>data = [0, 1, 0, 1], width = 2, height = 2\<rparr>" 2
        "\<lparr>width_km = 10, height_km = 10, max_elevation_km = 5\<rparr>" 0]
    no_contour_outside_range_or_flat
    [of "\<lparr>data = [0.2, 0.2, 0.2, 0.2], width = 2, height = 2\<rparr>" "0.2"
        "\<lparr>width_km = 10, height_km = 10, max_elevation_km = 5\<rparr>" "0.2"]
  by simp

lemma levelPoints_small:
  "width hm < 2 \<or> height hm < 2 \<Longrightarrow> levelPoints hm sc level = []"
  by (auto simp: levelPoints_def)

lemma planLevels_no_levels: "contourLevels r \<le> 0 \<Longrightarrow> planLevels r = None"
  by (simp add: planLevels_def split: option.splits)

lemma upt_0_3: "[0..<3] = [0, 1, 2]"
  by (simp add: upt_rec)

text \<open>
  Claim C2, as stated, fails: \<^verbatim>\<open>addContours\<close> has no error result. On a grid one sample
  wide with three levels requested it returns normally and stores an empty contour
  group; with \<open>contourLevels = 0\<close> it returns normally and changes nothing.
\<close>

theorem small_grid_no_error_counterexample:
  "addContours thinRenderer = Inr (thinRenderer\<lparr>contours := Some []\<rparr>)
   \<and> (\<forall>e. addContours thinRenderer \<noteq> Inl e)
   \<and> addContours (thinRenderer\<lparr>contourLevels := 0\<rparr>) = Inr (thinRenderer\<lparr>contourLevels := 0\<rparr>)
   \<and> (\<forall>e. addContours (thinRenderer\<lparr>contourLevels := 0\<rparr>) \<noteq> Inl e)"
proof -
  have p: "planLevels thinRenderer = Some [Num 0, Num 0.5, Num 1]"
    by (simp add: planLevels_def thinRenderer_def heightBounds_def jmin_def jmax_def jsub_def
        levelAt_def upt_0_3)
  have a: "addContours thinRenderer = Inr (thinRenderer\<lparr>contours := Some []\<rparr>)"
  proof -
    have h: "hmap thinRenderer = Some \<lparr>data = [0, 1], width = 1, height = 2\<rparr>"
      by (simp add: thinRenderer_def)
    show ?thesis unfolding addContours_def h p by (simp add: levelPoints_small)
  qed
  have b: "addContours (thinRenderer\<lparr>contourLevels := 0\<rparr>) = Inr (thinRenderer\<lparr>contourLevels := 0\<rparr>)"
    by (simp add: addContours_def planLevels_no_levels split: option.splits)
  show ?thesis by (simp add: a b)
qed

text \<open>
  Claim C2, amended. For every grid with \<open>width < 2\<close> or \<open>height < 2\<close> the scan
  yields an empty point list for every level, and \<^verbatim>\<open>addContours\<close> returns normally,
  leaving the renderer unchanged or storing an empty contour group. For every
  \<open>contourLevels <= 0\<close> no level list is built and \<^verbatim>\<open>addContours\<close> returns normally,
  leaving the renderer unchanged.
\<close>

theorem small_grid_or_no_levels_returns_silently:
  "(hmap r = Some hm \<and> (width hm < 2 \<or> height hm < 2) \<longrightarrow>
      (\<forall>level. levelPoints hm (scale r) level = [])
      \<and> (addContours r = Inr r \<or> addContours r = Inr (r\<lparr>contours := Some []\<rparr>)))
   \<and> (contourLevels r \<le> 0 \<longrightarrow> planLevels r = None \<and> addContours r = Inr r)"
proof (intro conjI impI)
  assume a: "hmap r = Some hm \<and> (width hm < 2 \<or> height hm < 2)"
  then show "\<forall>level. levelPoints hm (scale r) level = []"
    by (simp add: levelPoints_small)
  from a show "addContours r = Inr r \<or> addContours r = Inr (r\<lparr>contours := Some []\<rparr>)"
    by (cases "planLevels r") (simp_all add: addContours_def levelPoints_small)
next
  assume n: "contourLevels r \<le> 0"
  then show "planLevels r = None" by (rule planLevels_no_levels)
  then show "addContours r = Inr r" by (simp add: addContours_def split: option.splits)
qed

theorem small_grid_or_no_levels_returns_silently_witness:
  "(\<forall>level. levelPoints \<lparr>data = [0, 1], width = 1, height = 2\<rparr> (scale thinRenderer) level = [])
   \<and> (addContours thinRenderer = Inr thinRenderer
        \<or> addContours thinRenderer = Inr (thinRenderer\<lparr>contours := Some []\<rparr>))
   \<and> planLevels (thinRenderer\<lparr>contourLevels := 0\<rparr>) = None
   \<and> addContours (thinRenderer\<lparr>contourLevels := 0\<rparr>) = Inr (thinRenderer\<lparr>contourLevels := 0\<rparr>)"
  using small_grid_or_no_levels_returns_silently
    [of thinRenderer "\<lparr>data = [0, 1], width = 1, height = 2\<rparr>"]
    small_grid_or_no_levels_returns_silently
    [of "thinRenderer\<lparr>contourLevels := 0\<rparr>" "\<lparr>data = [0, 1], width = 1, height = 2\<rparr>"]
  by (simp add: thinRenderer_def)

section \<open>Properties of the level list\<close>

text \<open>
  Claim C3 at a failing input: with \<open>contourLevels = 1\<close> on the grid \<open>[0, 1, 0, 1]\<close>
  the only level is \<open>0 + (0 / (1 - 1)) * 1\<close>, which is \<open>NaN\<close>, not the minimum \<open>0\<close>.
\<close>

theorem single_level_is_NaN:
  "planLevels singleLevelRenderer = Some [NaN]
   \<and> planLevels singleLevelRenderer \<noteq> Some [Num 0]"
  by (simp add: planLevels_def singleLevelRenderer_def heightBounds_def jmin_def jmax_def
      jsub_def levelAt_def signed_inf_def)

text \<open>
  Claim C4, as stated, fails: for the flat 3 by 3 grid of value \<open>0.2\<close> with five
  levels requested no level list is built; in particular it is not \<open>[0.2]\<close>.
\<close>

theorem flat_grid_single_level_counterexample:
  "planLevels flatRenderer = None \<and> planLevels flatRenderer \<noteq> Some [Num 0.2]"
  by (simp add: planLevels_def flatRenderer_def heightBounds_def jmin_def jmax_def jsub_def)

text \<open>
  Claim C4, amended. For every grid whose samples are all equal and every requested
  number of levels, \<^verbatim>\<open>addContours\<close> builds no level list (the guard
  \<^verbatim>\<open>heightRange > 0\<close> fails) and returns leaving the renderer unchanged.
\<close>

theorem flat_grid_plans_no_level:
  assumes "hmap r = Some hm" and "\<forall>v\<in>set (data hm). v = c"
  shows "planLevels r = None \<and> addContours r = Inr r"
proof -
  have "\<not> jgt (jsub (snd (heightBounds (data hm))) (fst (heightBounds (data hm)))) (Num 0)"
    using heightBounds_flat [OF assms(2)] by (auto simp: jsub_def)
  then have "planLevels r = None"
    using assms(1) by (simp add: planLevels_def case_prod_unfold)
  then show ?thesis by (simp add: addContours_def assms(1))
qed

theorem flat_grid_plans_no_level_witness:
  "planLevels flatRenderer = None \<and> addContours flatRenderer = Inr flatRenderer"
  using flat_grid_plans_no_level
    [of flatRenderer "\<lparr>data = [0.2, 0.2, 0.2, 0.2, 0.2, 0.2, 0.2, 0.2, 0.2], width = 3, height = 3\<rparr>"
        "0.2"]
  by (simp add: flatRenderer_def)

section \<open>Properties of getTerrainInfo\<close>

lemma getTerrainInfo_nonempty:
  assumes "hmap r = Some hm" and "data hm \<noteq> []"
  shows "getTerrainInfo r =
     Some \<lparr>minElevation = Num (Min (set (data hm)) * max_elevation_km (scale r) * 1000),
           maxElevation = Num (Max (set (data hm)) * max_elevation_km (scale r) * 1000),
           elevationRange =
             Num ((Max (set (data hm)) - Min (set (data hm))) * max_elevation_km (scale r) * 1000),
           mapWidth = width_km (scale r),
           mapHeight = height_km (scale r),
           infoResolution = resolution r\<rparr>"
  using assms by (simp add: getTerrainInfo_def heightBounds_nonempty jsub_def)

text \<open>
  Claim C8. For every renderer holding a non-empty grid, \<^verbatim>\<open>getTerrainInfo\<close> returns
  \<open>minElevation = min * max_elevation_km * 1000\<close>,
  \<open>maxElevation = max * max_elevation_km * 1000\<close> and
  \<open>elevationRange = (max - min) * max_elevation_km * 1000\<close>, where \<open>min\<close> and \<open>max\<close> are
  the least and the greatest sample, with \<open>mapWidth\<close> and \<open>mapHeight\<close> the scale's
  \<open>width_km\<close> and \<open>height_km\<close>, and nothing rounded. For values spanning
  \<open>[0.1, 0.9]\<close> and \<open>max_elevation_km = 5\<close> this is 500, 4500 and 4000.
\<close>

theorem terrain_info_values:
  assumes "hmap r = Some hm" and "data hm \<noteq> []"
  shows "getTerrainInfo r =
     Some \<lparr>minElevation = Num (Min (set (data hm)) * max_elevation_km (scale r) * 1000),
           maxElevation = Num (Max (set (data hm)) * max_elevation_km (scale r) * 1000),
           elevationRange =
             Num ((Max (set (data hm)) - Min (set (data hm))) * max_elevation_km (scale r) * 1000),
           mapWidth = width_km (scale r),
           mapHeight = height_km (scale r),
           infoResolution = resolution r\<rparr>"
  using assms by (rule getTerrainInfo_nonempty)

theorem terrain_info_values_witness:
  "getTerrainInfo surveyRenderer =
     Some \<lparr>minElevation = Num 500, maxElevation = Num 4500, elevationRange = Num 4000,
           mapWidth = 10, mapHeight = 8, infoResolution = 500\<rparr>"
  using terrain_info_values
    [of surveyRenderer "\<lparr>data = [0.5, 0.1, 0.9, 0.3], width = 2, height = 2\<rparr>"]
  by (simp add: surveyRenderer_def)

text \<open>
  Claim C10. For every renderer holding a non-empty grid, the three elevations of
  the result are finite and \<open>elevationRange = maxElevation - minElevation\<close> exactly.
\<close>

theorem terrain_info_range_identity:
  assumes "hmap r = Some hm" and "data hm \<noteq> []"
  shows "\<exists>info lo hi. getTerrainInfo r = Some info
           \<and> minElevation info = Num lo \<and> maxElevation info = Num hi
           \<and> elevationRange info = Num (hi - lo)
           \<and> elevationRange info = jsub (maxElevation info) (minElevation info)"
proof -
  let ?lo = "Min (set (data hm)) * max_elevation_km (scale r) * 1000"
  let ?hi = "Max (set (data hm)) * max_elevation_km (scale r) * 1000"
  have range: "(Max (set (data hm)) - Min (set (data hm))) * max_elevation_km (scale r) * 1000
      = ?hi - ?lo"
    by (simp only: left_diff_distrib)
  obtain info where info: "getTerrainInfo r = Some info"
    and lo: "minElevation info = Num ?lo" and hi: "maxElevation info = Num ?hi"
    and rg: "elevationRange info = Num (?hi - ?lo)"
    using getTerrainInfo_nonempty [OF assms] range by simp
  have "elevationRange info = jsub (maxElevation info) (minElevation info)"
    by (simp add: lo hi rg jsub_def)
  with info lo hi rg show ?thesis by blast
qed

theorem terrain_info_range_identity_witness:
  "\<exists>info lo hi. getTerrainInfo surveyRenderer = Some info
           \<and> minElevation info = Num lo \<and> maxElevation info = Num hi
           \<and> elevationRange info = Num (hi - lo)
           \<and> elevationRange info = jsub (maxElevation info) (minElevation info)"
  using terrain_info_range_identity
    [of surveyRenderer "\<lparr>data = [0.5, 0.1, 0.9, 0.3], width = 2, height = 2\<rparr>"]
  by (simp add: surveyRenderer_def)

section \<open>Properties of readR16Heightmap\<close>

lemma drop_two:
  assumes "off + 2 \<le> length bs"
  shows "take 2 (drop off bs) = [bs ! off, bs ! (off + 1)]"
proof -
  have "drop off bs = bs ! off # bs ! (off + 1) # drop (off + 2) bs"
    using assms by (simp add: Cons_nth_drop_Suc)
  then show ?thesis by (simp add: numeral_2_eq_2)
qed

lemma drop_four:
  assumes "off + 4 \<le> length bs"
  shows "take 4 (drop off bs) = [bs ! off, bs ! (off + 1), bs ! (off + 2), bs ! (off + 3)]"
proof -
  have "drop off bs =
      bs ! off # bs ! (off + 1) # bs ! (off + 2) # bs ! (off + 3) # drop (off + 4) bs"
    using assms by (simp add: Cons_nth_drop_Suc numeral_eq_Suc)
  then show ?thesis by (simp add: numeral_eq_Suc)
qed

lemma getUint32_in_range:
  "off + 4 \<le> length bs \<Longrightarrow> getUint32 bs off = Inr (u32le bs off)"
  by (simp add: getUint32_def drop_four leValue_def u32le_def)

lemma getUint16_in_range:
  "off + 2 \<le> length bs \<Longrightarrow> getUint16 bs off = Inr (u16le bs off)"
  by (simp add: getUint16_def drop_two leValue_def u16le_def)

lemma getUint32_out_of_range:
  "\<not> off + 4 \<le> length bs \<Longrightarrow> getUint32 bs off = Inl rangeError"
  by (simp add: getUint32_def)

lemma readSamples_in_range:
  "\<forall>i\<in>set idxs. 8 + i * 2 + 2 \<le> length bs \<Longrightarrow>
     readSamples bs idxs = Inr (map (\<lambda>i. real (u16le bs (8 + i * 2)) / 65535) idxs)"
  by (induction idxs) (simp_all add: getUint16_in_range)

lemma readR16_short:
  assumes "length buffer < 8"
  shows "\<exists>e. readR16Heightmap buffer = Inl e"
  using assms
  by (cases "4 \<le> length buffer")
     (simp_all add: readR16Heightmap_def getUint32_in_range getUint32_out_of_range)

lemma readR16_mismatch:
  assumes "8 \<le> length buffer"
    and "length buffer \<noteq> 8 + u32le buffer 0 * u32le buffer 4 * 2"
  shows "readR16Heightmap buffer = Inl (Error ''Invalid R16 file size'')"
  using assms by (simp add: readR16Heightmap_def getUint32_in_range)

lemma readR16_decoded:
  assumes "length buffer = 8 + u32le buffer 0 * u32le buffer 4 * 2"
  shows "readR16Heightmap buffer =
           Inr \<lparr>data = map (\<lambda>i. real (u16le buffer (8 + i * 2)) / 65535)
                         [0..<u32le buffer 0 * u32le buffer 4],
                width = u32le buffer 0, height = u32le buffer 4\<rparr>"
proof -
  have "\<forall>i\<in>set [0..<u32le buffer 0 * u32le buffer 4]. 8 + i * 2 + 2 \<le> length buffer"
    using assms by auto
  from readSamples_in_range [OF this] assms show ?thesis
    by (simp add: readR16Heightmap_def getUint32_in_range)
qed

text \<open>
  Claim C9. For every byte buffer: a buffer of fewer than 8 bytes is rejected; for a
  longer one, with \<open>width\<close> the unsigned 32-bit little-endian integer of the bytes 0-3
  and \<open>height\<close> that of the bytes 4-7, the decoder rejects the buffer with
  \<^verbatim>\<open>Invalid R16 file size\<close> whenever its length differs from
  \<open>8 + width * height * 2\<close>, and otherwise resolves to the grid of that width and
  height whose \<open>width * height\<close> samples are, for each \<open>i\<close>, the unsigned 16-bit
  little-endian integer at the offset \<open>8 + i * 2\<close> divided by 65535.
\<close>

theorem readR16_layout:
  "(length buffer < 8 \<longrightarrow> (\<exists>e. readR16Heightmap buffer = Inl e))
   \<and> (8 \<le> length buffer \<longrightarrow>
        (length buffer \<noteq> 8 + u32le buffer 0 * u32le buffer 4 * 2 \<longrightarrow>
           readR16Heightmap buffer = Inl (Error ''Invalid R16 file size''))
        \<and> (length buffer = 8 + u32le buffer 0 * u32le buffer 4 * 2 \<longrightarrow>
             readR16Heightmap buffer =
               Inr \<lparr>data = map (\<lambda>i. real (u16le buffer (8 + i * 2)) / 65535)
                             [0..<u32le buffer 0 * u32le buffer 4],
                    width = u32le buffer 0, height = u32le buffer 4\<rparr>))"
  using readR16_short [of buffer] readR16_mismatch [of buffer] readR16_decoded [of buffer]
  by blast

theorem readR16_layout_witness:
  "readR16Heightmap [2, 0, 0, 0, 1, 0, 0, 0, 255, 255, 0, 128] =
      Inr \<lparr>data = [1, 32768 / 65535], width = 2, height = 1\<rparr>
   \<and> readR16Heightmap [2, 0, 0, 0, 1, 0, 0, 0, 255] = Inl (Error ''Invalid R16 file size'')
   \<and> (\<exists>e. readR16Heightmap [1, 2, 3] = Inl e)"
  using readR16_layout [of "[2, 0, 0, 0, 1, 0, 0, 0, 255, 255, 0, 128]"]
    readR16_layout [of "[2, 0, 0, 0, 1, 0, 0, 0, 255]"]
    readR16_layout [of "[1, 2, 3]"]
  by (simp add: u32le_def u16le_def upt_rec)

text \<open>
  Every grid the decoder resolves to holds \<open>width * height\<close> samples, each in
  \<open>[0, 1]\<close>.
\<close>

lemma u16le_bound: "u16le bs off \<le> 65535"
proof -
  have "unat (bs ! off) < 256" "unat (bs ! (off + 1)) < 256"
    using unsigned_less [of "bs ! off", where 'a = nat]
      unsigned_less [of "bs ! (off + 1)", where 'a = nat] by simp_all
  then show ?thesis by (simp add: u16le_def)
qed

lemma readR16_grid_invariant:
  assumes "readR16Heightmap buffer = Inr hm"
  shows "length (data hm) = width hm * height hm \<and> (\<forall>v\<in>set (data hm). 0 \<le> v \<and> v \<le> 1)"
proof -
  have "\<not> length buffer < 8"
    using assms readR16_short [of buffer] by auto
  then have len: "8 \<le> length buffer" by simp
  have "length buffer = 8 + u32le buffer 0 * u32le buffer 4 * 2"
    using assms readR16_mismatch [OF len] by auto
  from readR16_decoded [OF this] assms
  have hm: "hm = \<lparr>data = map (\<lambda>i. real (u16le buffer (8 + i * 2)) / 65535)
                         [0..<u32le buffer 0 * u32le buffer 4],
                width = u32le buffer 0, height = u32le buffer 4\<rparr>"
    by simp
  have "0 \<le> real (u16le buffer k) / 65535 \<and> real (u16le buffer k) / 65535 \<le> 1" for k
    using u16le_bound [of buffer k] by simp
  then show ?thesis by (auto simp: hm)
qed

section \<open>Properties of generateRandomHeightmap\<close>

lemma getGradient_origin: "getGradient 0 0 = (1, 1)"
  by (simp add: getGradient_def grad3_def)

lemma simplex2D_eighth: "simplex2D (1 / 8) (1 / 8) = 70 * (50625 / 4194304)"
  by (simp add: simplex2D_def Let_def contribution_def getGradient_origin dot_def)

lemma simplex2D_quarter: "simplex2D (1 / 4) (1 / 4) = 70 * (81 / 8192)"
  by (simp add: simplex2D_def Let_def contribution_def getGradient_origin dot_def)

lemma simplex2D_half: "simplex2D (1 / 2) (1 / 2) = 0"
  by (simp add: simplex2D_def Let_def contribution_def)

lemma simplex2D_lattice: "simplex2D (real_of_int k) (real_of_int k) = 0"
  by (simp add: simplex2D_def Let_def contribution_def dot_def)

lemma simplex2D_pos_lattice: "simplex2D 1 1 = 0" "simplex2D 2 2 = 0" "simplex2D 4 4 = 0"
  using simplex2D_lattice [of 1] simplex2D_lattice [of 2] simplex2D_lattice [of 4] by simp_all

lemma octaves_at: "octaves 6 (1 / 8) (1 / 8) 0 1 1 = 2497635 / 2097152"
  by (simp add: numeral_eq_Suc)
     (simp add: simplex2D_eighth simplex2D_quarter simplex2D_half simplex2D_pos_lattice)

lemma heightAt_8_5: "heightAt 8 8 5 5 = 4594787 / 4194304"
  by (simp add: heightAt_def Let_def octaves_at)

lemma heightAt_256_160: "heightAt 256 256 160 160 = 4594787 / 4194304"
  by (simp add: heightAt_def Let_def octaves_at)

lemma simplex2D_neg_eighth: "simplex2D (- (1 / 8)) (- (1 / 8)) = - (70 * (50625 / 4194304))"
  by (simp add: simplex2D_def Let_def contribution_def getGradient_origin dot_def)

lemma simplex2D_neg_quarter: "simplex2D (- (1 / 4)) (- (1 / 4)) = - (70 * (81 / 8192))"
  by (simp add: simplex2D_def Let_def contribution_def getGradient_origin dot_def)

lemma simplex2D_neg_half: "simplex2D (- (1 / 2)) (- (1 / 2)) = 0"
  by (simp add: simplex2D_def Let_def contribution_def)

lemma simplex2D_neg_lattice:
  "simplex2D (- 1) (- 1) = 0" "simplex2D (- 2) (- 2) = 0" "simplex2D (- 4) (- 4) = 0"
  using simplex2D_lattice [of "- 1"] simplex2D_lattice [of "- 2"] simplex2D_lattice [of "- 4"]
  by simp_all

lemma octaves_at_neg: "octaves 6 (- (1 / 8)) (- (1 / 8)) 0 1 1 = - (2497635 / 2097152)"
  by (simp add: numeral_eq_Suc)
     (simp add: simplex2D_neg_eighth simplex2D_neg_quarter simplex2D_neg_half
        simplex2D_neg_lattice)

lemma heightAt_256_96: "heightAt 256 256 96 96 = - (400483 / 4194304)"
  by (simp add: heightAt_def Let_def octaves_at_neg)

lemma nth_rows:
  assumes "x < w" "y < h"
  shows "concat (map (\<lambda>y. map (\<lambda>x. f x y) [0..<w]) [0..<h]) ! (y * w + x) = f x y"
  using assms
proof (induction h arbitrary: y)
  case 0
  then show ?case by simp
next
  case (Suc h)
  have len: "length (concat (map (\<lambda>y. map (\<lambda>x. f x y) [0..<w]) [0..<h])) = h * w"
    by (induction h) simp_all
  show ?case
  proof (cases "y < h")
    case True
    then have "y * w + x < h * w"
      using Suc.prems(1)
      by (metis add.commute mult_Suc less_le_trans add_less_cancel_left mult_le_mono1 Suc_leI)
    then show ?thesis using Suc.IH [OF Suc.prems(1) True] by (simp add: nth_append len)
  next
    case False
    then have "y = h" using Suc.prems by simp
    then show ?thesis using Suc.prems(1) by (simp add: nth_append len)
  qed
qed

lemma generated_sample:
  "x < w \<Longrightarrow> y < h \<Longrightarrow> data (generateRandomHeightmap w h) ! (y * w + x) = heightAt w h x y"
  by (simp add: generateRandomHeightmap_def nth_rows)

lemma generated_length: "length (data (generateRandomHeightmap w h)) = w * h"
proof -
  have "length (concat (map (\<lambda>y. map (\<lambda>x. heightAt w h x y) [0..<w]) [0..<k])) = k * w" for k
    by (induction k) simp_all
  then show ?thesis by (simp add: generateRandomHeightmap_def mult.commute)
qed

text \<open>
  Claim C5 at failing inputs. The source comments the line
  \<^verbatim>\<open>heightmap[index] = (value + 1) * 0.5\<close> as normalising to the range 0-1, and the
  sample leaves that range: at \<open>x / width = y / height = 5 / 8\<close> the two octaves that
  contribute both take the gradient \<open>(1, 1)\<close> of the lattice point \<open>(0, 0)\<close>
  (\<open>sin 0 = 0\<close>), the noise sum is about \<open>1.19\<close> and the sample about \<open>1.0955\<close>. This
  is the sample 45 of the 8 by 8 grid and the sample 41120 of the 256 by 256 grid;
  the sample 24672 of the latter, at \<open>x / width = y / height = 3 / 8\<close>, is negative.
\<close>

theorem random_heightmap_leaves_unit_interval:
  "data (generateRandomHeightmap 8 8) ! 45 = 4594787 / 4194304
   \<and> 1 < data (generateRandomHeightmap 8 8) ! 45
   \<and> data (generateRandomHeightmap 256 256) ! 41120 = 4594787 / 4194304
   \<and> data (generateRandomHeightmap 256 256) ! 24672 = - (400483 / 4194304)"
  using generated_sample [of 5 8 5 8] generated_sample [of 160 256 160 256]
    generated_sample [of 96 256 96 256]
  by (simp add: heightAt_8_5 heightAt_256_160 heightAt_256_96)

end
